theory Spec2Isabelle
  imports Main "HOL-Library.Sublist"
begin

section \<open>Data model of \<open>app.py\<close>\<close>

text \<open>
  A Python \<open>str\<close> is a sequence of Unicode code points; the corpus is Japanese text, so a
  character is modelled by its code point (a \<open>nat\<close>) and not by an 8-bit \<open>char\<close>.
\<close>

type_synonym pystr = "nat list"

text \<open>
  \<open>load_csv\<close> reads the file with \<open>pd.read_csv(file_path, dtype=str, encoding=enc)\<close>: a cell
  of the frame is either a string or, where the CSV field is empty, the missing value
  \<open>NaN\<close>. Python's \<open>str\<close> is the identity on a string and prints the missing value as
  the three characters \<open>nan\<close>.
\<close>

datatype cell = Str pystr | NaN

fun str :: "cell \<Rightarrow> pystr" where
  "str (Str s) = s"
| "str NaN = [110, 97, 110]"

text \<open>
  A DataFrame: its column labels and its rows in positional order. Every row of a frame
  has a cell under every column label, so a row is a function from labels to cells that
  the code consults at labels of \<open>columns\<close> only (the guard \<open>if col in df.columns\<close>).
  \<open>read_csv\<close> is called without \<open>index_col\<close>, so the row labels that \<open>df.iterrows()\<close>
  yields are the positions \<open>0, 1, ..., len(df) - 1\<close>.
\<close>

record dataframe =
  columns :: "pystr list"
  rows :: "(pystr \<Rightarrow> cell) list"

definition iterrows :: "dataframe \<Rightarrow> (nat \<times> (pystr \<Rightarrow> cell)) list" where
  "iterrows df = enumerate 0 (rows df)"

text \<open>
  The index is a \<open>defaultdict(list)\<close> from 2-grams to lists of row numbers. Reading
  \<open>index[key]\<close> at a key that is absent stores the empty list under that key and returns
  it: a lookup is a state change, so \<open>getitem\<close> returns the list and the dictionary after
  the lookup.
\<close>

type_synonym inverted_index = "pystr \<rightharpoonup> nat list"

definition getitem :: "inverted_index \<Rightarrow> pystr \<Rightarrow> nat list \<times> inverted_index" where
  "getitem index key =
     (case index key of
        Some l \<Rightarrow> (l, index)
      | None \<Rightarrow> ([], index(key \<mapsto> [])))"

text \<open>\<open>index[token].append(i)\<close>\<close>

definition getitem_append :: "inverted_index \<Rightarrow> pystr \<Rightarrow> nat \<Rightarrow> inverted_index" where
  "getitem_append index token i =
     (case getitem index token of (l, index') \<Rightarrow> index'(token \<mapsto> l @ [i]))"

section \<open>Step 2: \<open>generate_2grams\<close>\<close>

text \<open>
  \<open>[text[i:i+2] for i in range(len(text) - 1)]\<close>. \<open>len(text) - 1\<close> is an integer
  subtraction (\<open>-1\<close> for the empty string, where \<open>range\<close> is empty); the slice
  \<open>text[i:i+2]\<close> is the at most two characters from offset \<open>i\<close>.
\<close>

definition generate_2grams :: "pystr \<Rightarrow> pystr list" where
  "generate_2grams text =
     map (\<lambda>i. take 2 (drop i text)) [0..<nat (int (length text) - 1)]"

section \<open>Step 3: \<open>build_inverted_index\<close>\<close>

text \<open>
  The hard-coded list of the eleven text columns of the postal-code table, in the
  order of the source, each label written as its code points: prefecture
  (U+90FD U+9053 U+5E9C U+770C), prefecture kana, municipality
  (U+5E02 U+533A U+753A U+6751), municipality kana, town area, town area kana, town area
  supplement, supplement, office name, office name kana, office address. The kana columns
  are the label before them followed by U+30AB U+30CA.
\<close>

definition searchable_columns :: "pystr list" where
  "searchable_columns =
     [[37117, 36947, 24220, 30476],
      [37117, 36947, 24220, 30476, 12459, 12490],
      [24066, 21306, 30010, 26449],
      [24066, 21306, 30010, 26449, 12459, 12490],
      [30010, 22495],
      [30010, 22495, 12459, 12490],
      [30010, 22495, 35036, 36275],
      [35036, 36275],
      [20107, 26989, 25152, 21517],
      [20107, 26989, 25152, 21517, 12459, 12490],
      [20107, 26989, 25152, 20303, 25152]]"

text \<open>
  The inner loop over the columns:
  \<open>full_text = ''; for col in [...]: if col in df.columns: full_text += str(row[col])\<close>.
\<close>

definition full_text :: "dataframe \<Rightarrow> (pystr \<Rightarrow> cell) \<Rightarrow> pystr" where
  "full_text df row =
     fold (\<lambda>col acc. if col \<in> set (columns df) then acc @ str (row col) else acc)
       searchable_columns []"

text \<open>The loop \<open>for token in tokens: index[token].append(i)\<close>.\<close>

definition add_tokens :: "inverted_index \<Rightarrow> pystr list \<Rightarrow> nat \<Rightarrow> inverted_index" where
  "add_tokens index tokens i = fold (\<lambda>token idx. getitem_append idx token i) tokens index"

text \<open>The loop over the rows, from the dictionary built so far.\<close>

definition index_rows ::
  "dataframe \<Rightarrow> (nat \<times> (pystr \<Rightarrow> cell)) list \<Rightarrow> inverted_index \<Rightarrow> inverted_index" where
  "index_rows df irows index =
     fold (\<lambda>(i, row) idx. add_tokens idx (generate_2grams (full_text df row)) i) irows index"

definition build_inverted_index :: "dataframe \<Rightarrow> inverted_index" where
  "build_inverted_index df = index_rows df (iterrows df) Map.empty"

section \<open>Step 4: \<open>search_addresses\<close>\<close>

text \<open>
  \<open>search_addresses\<close> returns the list literal \<open>[]\<close> when the query has no 2-gram, and
  otherwise \<open>df.iloc[list(matched_indices)]\<close>: the frame of the rows at the matched
  positions. The order in which a Python set is listed is not specified, so that frame is
  represented by the set of its row positions. \<open>iloc\<close> raises \<open>IndexError\<close> at a position
  beyond the last row.
\<close>

datatype error = IndexError

datatype result = EmptyList | Frame "nat set"

definition iloc :: "dataframe \<Rightarrow> nat set \<Rightarrow> error + result" where
  "iloc df positions =
     (if \<forall>i \<in> positions. i < length (rows df) then Inr (Frame positions) else Inl IndexError)"

text \<open>
  One round of the loop \<open>for token in tokens[1:]\<close>:
  \<open>current_indices = set(index[token]);
   matched_indices = matched_indices.intersection(current_indices)\<close>.
\<close>

definition intersect_token ::
  "pystr \<Rightarrow> nat set \<times> inverted_index \<Rightarrow> nat set \<times> inverted_index" where
  "intersect_token token st =
     (case st of (matched_indices, index) \<Rightarrow>
        (case getitem index token of (l, index') \<Rightarrow> (matched_indices \<inter> set l, index')))"

text \<open>
  The function returns its value together with the dictionary as the call leaves it,
  since every \<open>index[token]\<close> it evaluates may store a key.
\<close>

definition search_addresses ::
  "pystr \<Rightarrow> inverted_index \<Rightarrow> dataframe \<Rightarrow> (error + result) \<times> inverted_index" where
  "search_addresses query index df =
     (case generate_2grams query of
        [] \<Rightarrow> (Inr EmptyList, index)
      | token0 # rest \<Rightarrow>
          (case getitem index token0 of (l0, index0) \<Rightarrow>
             (case fold intersect_token rest (set l0, index0) of (matched_indices, index') \<Rightarrow>
                (iloc df matched_indices, index'))))"

text \<open>The record identifiers a returned value stands for.\<close>

fun result_ids :: "result \<Rightarrow> nat set" where
  "result_ids EmptyList = {}"
| "result_ids (Frame positions) = positions"

text \<open>Reading a dictionary with an absent key taken as the empty posting list.\<close>

definition postings :: "inverted_index \<Rightarrow> pystr \<Rightarrow> nat list" where
  "postings index token = (case index token of None \<Rightarrow> [] | Some l \<Rightarrow> l)"

section \<open>Auxiliary notions for the statements\<close>

text \<open>The 2-grams of a row: \<open>tokens = generate_2grams(full_text)\<close>.\<close>

definition row_tokens :: "dataframe \<Rightarrow> (pystr \<Rightarrow> cell) \<Rightarrow> pystr list" where
  "row_tokens df row = generate_2grams (full_text df row)"

text \<open>
  The row numbers that a list of numbered rows appends under one token, in the order of
  the appends: each row number once per occurrence of the token among the row's 2-grams.
\<close>

definition occurrences ::
  "dataframe \<Rightarrow> pystr \<Rightarrow> (nat \<times> (pystr \<Rightarrow> cell)) list \<Rightarrow> nat list" where
  "occurrences df t irows =
     concat (map (\<lambda>(i, row). replicate (count_list (row_tokens df row) t) i) irows)"

text \<open>
  The dictionary after \<open>index[key]\<close> has been evaluated for every key of a set: the keys
  that were absent now hold the empty list.
\<close>

definition touched :: "inverted_index \<Rightarrow> pystr set \<Rightarrow> inverted_index" where
  "touched index keys = (\<lambda>t. if t \<in> keys \<and> index t = None then Some [] else index t)"

text \<open>
  The text of a record with a missing field read as the empty string: the concatenation,
  in the order of \<open>searchable_columns\<close> and with no separator, of the values of the
  searchable columns that the frame has, where a missing cell has the value \<open>''\<close>. The
  source has no such function (it takes \<open>str(row[col])\<close>, see \<open>full_text\<close>); the statements
  below compare the two.
\<close>

fun field_value :: "cell \<Rightarrow> pystr" where
  "field_value (Str s) = s"
| "field_value NaN = []"

definition record_text :: "dataframe \<Rightarrow> (pystr \<Rightarrow> cell) \<Rightarrow> pystr" where
  "record_text df row =
     concat (map (\<lambda>col. field_value (row col))
       (filter (\<lambda>col. col \<in> set (columns df)) searchable_columns))"

text \<open>A row has a missing cell under a searchable column of the frame.\<close>

definition has_missing :: "dataframe \<Rightarrow> (pystr \<Rightarrow> cell) \<Rightarrow> bool" where
  "has_missing df row \<longleftrightarrow>
     (\<exists>col \<in> set searchable_columns. col \<in> set (columns df) \<and> row col = NaN)"



section \<open>Concrete frames for the examples\<close>

text \<open>
  The labels of the prefecture column and of the municipality column, the first and the
  third entry of \<open>searchable_columns\<close>.
\<close>

definition prefecture :: pystr where
  "prefecture = [37117, 36947, 24220, 30476]"

definition municipality :: pystr where
  "municipality = [24066, 21306, 30010, 26449]"

text \<open>
  A frame of two rows with these two columns: the prefecture and municipality of the first
  row are the code points of Tokyo-to and Shinjuku-ku (U+6771 U+4EAC U+90FD and
  U+65B0 U+5BBF U+533A), those of the second row the code points of Osaka-fu and
  Osaka-shi (U+5927 U+962A U+5E9C and U+5927 U+962A U+5E02).
\<close>

definition example_corpus :: dataframe where
  "example_corpus =
     \<lparr>columns = [prefecture, municipality],
      rows =
        [(\<lambda>col. NaN)(prefecture := Str [26481, 20140, 37117],
                    municipality := Str [26032, 23487, 21306]),
         (\<lambda>col. NaN)(prefecture := Str [22823, 38442, 24220],
                    municipality := Str [22823, 38442, 24066])]\<rparr>"

text \<open>The same frame read a second time: the same columns and the same cells under them.\<close>

definition example_corpus_reloaded :: dataframe where
  "example_corpus_reloaded =
     \<lparr>columns = [prefecture, municipality],
      rows =
        [(\<lambda>col. Str [])(prefecture := Str [26481, 20140, 37117],
                      municipality := Str [26032, 23487, 21306]),
         (\<lambda>col. Str [])(prefecture := Str [22823, 38442, 24220],
                      municipality := Str [22823, 38442, 24066])]\<rparr>"

text \<open>A frame with one row whose only field is empty in the CSV file, hence missing.\<close>

definition blank_record_frame :: dataframe where
  "blank_record_frame = \<lparr>columns = [prefecture], rows = [\<lambda>col. NaN]\<rparr>"

text \<open>
  A frame with the prefecture and municipality columns and one row, whose prefecture is
  Tokyo-to and whose municipality field is empty in the CSV file, hence missing.
\<close>

definition missing_municipality_frame :: dataframe where
  "missing_municipality_frame =
     \<lparr>columns = [prefecture, municipality],
      rows = [(\<lambda>col. NaN)(prefecture := Str [26481, 20140, 37117])]\<rparr>"

text \<open>A frame with one row whose only cell is the empty string.\<close>

definition empty_string_frame :: dataframe where
  "empty_string_frame = \<lparr>columns = [prefecture], rows = [\<lambda>col. Str []]\<rparr>"

section \<open>The tokenizer\<close>

lemma range_bound: "nat (int n - 1) = n - 1"
  by arith

lemma generate_2grams_eq:
  "generate_2grams s = map (\<lambda>i. take 2 (drop i s)) [0..<length s - 1]"
  by (simp add: generate_2grams_def range_bound)

lemma length_generate_2grams: "length (generate_2grams s) = length s - 1"
  by (simp add: generate_2grams_def)

lemma nth_generate_2grams:
  "i < length (generate_2grams s) \<Longrightarrow> generate_2grams s ! i = take 2 (drop i s)"
  by (simp add: generate_2grams_def)

lemma set_generate_2grams:
  "set (generate_2grams s) = {t. length t = 2 \<and> sublist t s}"
proof (intro set_eqI iffI)
  fix t assume "t \<in> set (generate_2grams s)"
  then obtain i where i: "i < length s - 1" and t: "t = take 2 (drop i s)"
    by (auto simp: generate_2grams_eq)
  have "s = take i s @ t @ drop 2 (drop i s)"
    unfolding t by (simp only: append_take_drop_id)
  then have "sublist t s"
    unfolding sublist_def by blast
  moreover have "length t = 2"
    using i by (simp add: t)
  ultimately show "t \<in> {t. length t = 2 \<and> sublist t s}"
    by simp
next
  fix t assume "t \<in> {t. length t = 2 \<and> sublist t s}"
  then obtain ps ss where len: "length t = 2" and s: "s = ps @ t @ ss"
    by (auto simp: sublist_def)
  have "take 2 (drop (length ps) s) = t"
    by (simp add: s len)
  moreover have "length ps < length s - 1"
    by (simp add: s len)
  ultimately show "t \<in> set (generate_2grams s)"
    by (force simp: generate_2grams_eq)
qed

lemma postings_getitem: "fst (getitem index key) = postings index key"
  by (simp add: getitem_def postings_def split: option.splits)

lemma snd_getitem:
  "snd (getitem index key) = (\<lambda>t. if t = key \<and> index t = None then Some [] else index t)"
  by (auto simp: getitem_def fun_eq_iff split: option.splits)

lemma getitem_append_eq:
  "getitem_append index token i = index(token \<mapsto> postings index token @ [i])"
  by (auto simp: getitem_append_def getitem_def postings_def split: option.splits)

lemma add_tokens_apply:
  "add_tokens index tokens i t =
     (if t \<in> set tokens then Some (postings index t @ replicate (count_list tokens t) i)
      else index t)"
proof (induction tokens arbitrary: index)
  case Nil
  show ?case by (simp add: add_tokens_def)
next
  case (Cons a tokens)
  have step: "add_tokens index (a # tokens) i = add_tokens (getitem_append index a i) tokens i"
    by (simp add: add_tokens_def)
  show ?case
    unfolding step Cons.IH
    by (auto simp: getitem_append_eq postings_def replicate_append_same)
qed

section \<open>The index that the builder returns\<close>

lemma index_rows_apply:
  "index_rows df irows index t =
     (if \<exists>(i, row) \<in> set irows. t \<in> set (row_tokens df row)
      then Some (postings index t @ occurrences df t irows)
      else index t)"
proof (induction irows arbitrary: index)
  case Nil
  show ?case by (simp add: index_rows_def)
next
  case (Cons p irows)
  obtain i row where p: "p = (i, row)" by (cases p)
  have step: "index_rows df (p # irows) index =
      index_rows df irows (add_tokens index (row_tokens df row) i)"
    by (simp add: index_rows_def p row_tokens_def)
  have absent: "t \<notin> set (row_tokens df row) \<Longrightarrow> count_list (row_tokens df row) t = 0"
    by (simp add: count_list_0_iff)
  show ?case
    unfolding step Cons.IH
    by (auto simp: p add_tokens_apply postings_def occurrences_def absent)
qed

lemma build_apply:
  "build_inverted_index df t =
     (if \<exists>(i, row) \<in> set (iterrows df). t \<in> set (row_tokens df row)
      then Some (occurrences df t (iterrows df)) else None)"
  by (simp add: build_inverted_index_def index_rows_apply postings_def)

lemma iterrows_eq: "iterrows df = map (\<lambda>i. (i, rows df ! i)) [0..<length (rows df)]"
  by (rule nth_equalityI) (simp_all add: iterrows_def enumerate_eq_zip)

lemma row_occurs_iff:
  "(\<exists>(i, row) \<in> set (iterrows df). P i row) \<longleftrightarrow> (\<exists>r < length (rows df). P r (rows df ! r))"
  by (auto simp: iterrows_eq)

lemma occurrences_upt:
  "occurrences df t (map (\<lambda>i. (i, rs ! i)) [0..<n]) =
     concat (map (\<lambda>i. replicate (count_list (row_tokens df (rs ! i)) t) i) [0..<n])"
  by (simp add: occurrences_def comp_def)

lemma set_occurrences:
  "set (occurrences df t (iterrows df)) =
     {r. r < length (rows df) \<and> t \<in> set (row_tokens df (rows df ! r))}"
  by (auto simp: iterrows_eq occurrences_upt count_list_0_iff)




section \<open>The search loop\<close>

lemma getitem_eq: "getitem index key = (postings index key, touched index {key})"
  by (auto simp: getitem_def postings_def touched_def fun_eq_iff split: option.splits)

lemma postings_touched: "postings (touched index keys) t = postings index t"
  by (simp add: postings_def touched_def)

lemma touched_touched: "touched (touched index A) B = touched index (A \<union> B)"
  by (auto simp: touched_def fun_eq_iff)

lemma intersect_token_eq:
  "intersect_token token (S, index) = (S \<inter> set (postings index token), touched index {token})"
  by (simp add: intersect_token_def getitem_eq)

lemma fold_intersect_token:
  "fold intersect_token rest (S, touched index A) =
     (S \<inter> (\<Inter>t \<in> set rest. set (postings index t)), touched index (A \<union> set rest))"
proof (induction rest arbitrary: S A)
  case Nil
  show ?case by simp
next
  case (Cons a rest)
  have "fold intersect_token (a # rest) (S, touched index A) =
      fold intersect_token rest (S \<inter> set (postings index a), touched index (A \<union> {a}))"
    by (simp add: intersect_token_eq postings_touched touched_touched)
  also have "\<dots> = (S \<inter> set (postings index a) \<inter> (\<Inter>t \<in> set rest. set (postings index t)),
      touched index (A \<union> {a} \<union> set rest))"
    by (rule Cons.IH)
  finally show ?case
    by (simp add: Int_assoc Un_assoc)
qed

lemma search_addresses_eq:
  "search_addresses query index df =
     (if generate_2grams query = [] then (Inr EmptyList, index)
      else (iloc df (\<Inter>t \<in> set (generate_2grams query). set (postings index t)),
            touched index (set (generate_2grams query))))"
proof (cases "generate_2grams query")
  case Nil
  then show ?thesis by (simp add: search_addresses_def)
next
  case (Cons token0 rest)
  have "fold intersect_token rest (set (postings index token0), touched index {token0}) =
      (set (postings index token0) \<inter> (\<Inter>t \<in> set rest. set (postings index t)),
       touched index ({token0} \<union> set rest))"
    by (rule fold_intersect_token)
  then show ?thesis
    by (simp add: search_addresses_def Cons getitem_eq)
qed

lemma set_postings_build:
  "set (postings (build_inverted_index df) t) =
     {r. r < length (rows df) \<and> t \<in> set (row_tokens df (rows df ! r))}"
proof (cases "\<exists>(i, row) \<in> set (iterrows df). t \<in> set (row_tokens df row)")
  case True
  then show ?thesis
    by (simp add: postings_def build_apply set_occurrences)
next
  case False
  then have "\<not> (\<exists>r < length (rows df). t \<in> set (row_tokens df (rows df ! r)))"
    using row_occurs_iff [of df "\<lambda>i row. t \<in> set (row_tokens df row)"] by simp
  with False show ?thesis
    by (auto simp: postings_def build_apply)
qed

lemma generate_2grams_Nil: "generate_2grams [] = []"
  by (simp add: generate_2grams_eq)

lemma generate_2grams_single: "generate_2grams [a] = []"
  by (simp add: generate_2grams_eq)

lemma generate_2grams_Cons2:
  "generate_2grams (a # b # s) = [a, b] # generate_2grams (b # s)"
  by (simp add: generate_2grams_eq upt_rec [of 0] map_Suc_upt [symmetric] del: upt_Suc)

lemmas generate_2grams_simps = generate_2grams_Nil generate_2grams_single generate_2grams_Cons2

lemma generate_2grams_empty_iff: "generate_2grams s = [] \<longleftrightarrow> length s < 2"
  using length_generate_2grams [of s] by auto

lemma fold_append_columns:
  "fold (\<lambda>col acc. if col \<in> C then acc @ f col else acc) cols acc =
     acc @ concat (map f (filter (\<lambda>col. col \<in> C) cols))"
  by (induction cols arbitrary: acc) simp_all

lemma full_text_concat:
  "full_text df row =
     concat (map (\<lambda>col. str (row col)) (filter (\<lambda>col. col \<in> set (columns df)) searchable_columns))"
  by (simp only: full_text_def fold_append_columns append_Nil)

section \<open>Claims about the tokenizer\<close>

text \<open>
  Claim C3 (tokenizer shape). For every string \<open>s\<close>, \<open>generate_2grams s\<close> has exactly
  \<open>max(0, len(s) - 2 + 1)\<close> tokens; token \<open>i\<close> is the two characters of \<open>s\<close> at the
  offsets \<open>i\<close> and \<open>i + 1\<close>, so the tokens stand in left-to-right order and each has
  length 2; a string shorter than 2 gives the empty list, not an error.
\<close>

theorem generate_2grams_shape:
  "int (length (generate_2grams s)) = max 0 (int (length s) - 2 + 1) \<and>
   (\<forall>i < length (generate_2grams s).
      i + 1 < length s \<and> generate_2grams s ! i = [s ! i, s ! (i + 1)]) \<and>
   (length s < 2 \<longrightarrow> generate_2grams s = [])"
proof (intro conjI allI impI)
  show "int (length (generate_2grams s)) = max 0 (int (length s) - 2 + 1)"
    by (simp add: length_generate_2grams)
next
  fix i assume i: "i < length (generate_2grams s)"
  then show "i + 1 < length s"
    by (simp add: length_generate_2grams)
  then have "take 2 (drop i s) = [s ! i, s ! (i + 1)]"
    by (simp add: take_Suc_conv_app_nth numeral_2_eq_2)
  with i show "generate_2grams s ! i = [s ! i, s ! (i + 1)]"
    by (simp add: nth_generate_2grams)
next
  assume "length s < 2"
  then show "generate_2grams s = []"
    by (simp add: generate_2grams_empty_iff)
qed

theorem generate_2grams_shape_witness:
  "length (generate_2grams [26481, 20140, 37117]) = 2 \<and>
   generate_2grams [26481, 20140, 37117] ! 0 = [26481, 20140] \<and>
   generate_2grams [26481, 20140, 37117] ! 1 = [20140, 37117] \<and>
   generate_2grams [26481] = []"
  using generate_2grams_shape [of "[26481, 20140, 37117]"] generate_2grams_shape [of "[26481]"]
  by (simp add: generate_2grams_simps)

section \<open>The example index and further facts about the builder\<close>

lemma full_text_example_0:
  "full_text example_corpus (rows example_corpus ! 0) = [26481, 20140, 37117, 26032, 23487, 21306]"
  by (simp add: full_text_def example_corpus_def searchable_columns_def prefecture_def
      municipality_def)

lemma full_text_example_1:
  "full_text example_corpus (rows example_corpus ! 1) = [22823, 38442, 24220, 22823, 38442, 24066]"
  by (simp add: full_text_def example_corpus_def searchable_columns_def prefecture_def
      municipality_def)

lemma length_example: "length (rows example_corpus) = 2"
  by (simp add: example_corpus_def)

lemma less_2_set:
  "{r. r < (2::nat) \<and> P r} =
     (if P 0 then {0} else {}) \<union> (if P (Suc 0) then {Suc 0} else {})"
proof (rule set_eqI)
  fix r :: nat
  consider "r = 0" | "r = Suc 0" | "2 \<le> r"
    by arith
  then show "r \<in> {r. r < 2 \<and> P r} \<longleftrightarrow>
      r \<in> (if P 0 then {0} else {}) \<union> (if P (Suc 0) then {Suc 0} else {})"
    by cases simp_all
qed

lemma postings_example:
  "set (postings (build_inverted_index example_corpus) t) =
     (if t \<in> set (generate_2grams [26481, 20140, 37117, 26032, 23487, 21306]) then {0} else {}) \<union>
     (if t \<in> set (generate_2grams [22823, 38442, 24220, 22823, 38442, 24066]) then {Suc 0} else {})"
  using full_text_example_0 full_text_example_1
  by (simp only: set_postings_build length_example less_2_set row_tokens_def One_nat_def)

lemma search_example:
  "generate_2grams q \<noteq> [] \<Longrightarrow>
   fst (search_addresses q (build_inverted_index example_corpus) example_corpus) =
     iloc example_corpus (\<Inter>t \<in> set (generate_2grams q).
       (if t \<in> set (generate_2grams [26481, 20140, 37117, 26032, 23487, 21306]) then {0} else {}) \<union>
       (if t \<in> set (generate_2grams [22823, 38442, 24220, 22823, 38442, 24066]) then {Suc 0} else {}))"
  by (simp add: search_addresses_eq postings_example)

lemma mem_row_tokens:
  "t \<in> set (row_tokens df row) \<longleftrightarrow> length t = 2 \<and> sublist t (full_text df row)"
  by (simp add: row_tokens_def set_generate_2grams)

lemma Inter_rows:
  "T \<noteq> {} \<Longrightarrow> (\<Inter>t \<in> T. {r. r < n \<and> P t r}) = {r. r < (n::nat) \<and> (\<forall>t \<in> T. P t r)}"
  by auto

lemma dom_build:
  "t \<in> dom (build_inverted_index df) \<longleftrightarrow>
     (\<exists>r < length (rows df). t \<in> set (row_tokens df (rows df ! r)))"
  using row_occurs_iff [of df "\<lambda>i row. t \<in> set (row_tokens df row)"]
  by (simp add: build_apply dom_def)



lemma full_text_cong:
  assumes "columns df' = columns df"
    and "\<forall>col \<in> set (columns df). row' col = row col"
  shows "full_text df' row' = full_text df row"
proof -
  have "map (\<lambda>col. str (row' col)) (filter (\<lambda>col. col \<in> set (columns df)) searchable_columns) =
      map (\<lambda>col. str (row col)) (filter (\<lambda>col. col \<in> set (columns df)) searchable_columns)"
    using assms(2) by (intro map_cong) simp_all
  then show ?thesis
    unfolding full_text_concat assms(1) by (rule arg_cong)
qed

lemma build_cong:
  assumes "columns df' = columns df"
    and "length (rows df') = length (rows df)"
    and "\<forall>r < length (rows df). \<forall>col \<in> set (columns df). (rows df' ! r) col = (rows df ! r) col"
  shows "build_inverted_index df' = build_inverted_index df"
proof -
  have toks: "row_tokens df' (rows df' ! r) = row_tokens df (rows df ! r)"
    if "r < length (rows df)" for r
    using that assms(1,3) full_text_cong [of df' df "rows df' ! r" "rows df ! r"]
    by (simp add: row_tokens_def)
  have m: "map (\<lambda>i. (i, row_tokens df' (rows df' ! i))) [0..<length (rows df)] =
      map (\<lambda>i. (i, row_tokens df (rows df ! i))) [0..<length (rows df)]"
    using toks by (intro map_cong) simp_all
  have f: "index_rows d (map (\<lambda>i. (i, rows d ! i)) ns) idx =
      fold (\<lambda>(i, toks) idx. add_tokens idx toks i)
        (map (\<lambda>i. (i, row_tokens d (rows d ! i))) ns) idx" for d ns idx
    by (induction ns arbitrary: idx) (simp_all add: index_rows_def row_tokens_def)
  have "build_inverted_index df' =
      index_rows df' (map (\<lambda>i. (i, rows df' ! i)) [0..<length (rows df)]) Map.empty"
    by (simp add: build_inverted_index_def iterrows_eq assms(2))
  also have "\<dots> = fold (\<lambda>(i, toks) idx. add_tokens idx toks i)
      (map (\<lambda>i. (i, row_tokens df' (rows df' ! i))) [0..<length (rows df)]) Map.empty"
    by (rule f)
  also have "\<dots> = fold (\<lambda>(i, toks) idx. add_tokens idx toks i)
      (map (\<lambda>i. (i, row_tokens df (rows df ! i))) [0..<length (rows df)]) Map.empty"
    by (simp only: m)
  also have "\<dots> = index_rows df (map (\<lambda>i. (i, rows df ! i)) [0..<length (rows df)]) Map.empty"
    by (rule f [symmetric])
  also have "\<dots> = build_inverted_index df"
    by (simp add: build_inverted_index_def iterrows_eq)
  finally show ?thesis .
qed

text \<open>Records with and without missing cells.\<close>

lemma full_text_record_text:
  assumes "\<not> has_missing df row"
  shows "full_text df row = record_text df row"
proof -
  have "str (row col) = field_value (row col)"
    if "col \<in> set (filter (\<lambda>col. col \<in> set (columns df)) searchable_columns)" for col
  proof (cases "row col")
    case (Str s)
    then show ?thesis by simp
  next
    case NaN
    with that assms show ?thesis
      by (auto simp: has_missing_def)
  qed
  then have "map (\<lambda>col. str (row col)) (filter (\<lambda>col. col \<in> set (columns df)) searchable_columns) =
      map (\<lambda>col. field_value (row col)) (filter (\<lambda>col. col \<in> set (columns df)) searchable_columns)"
    by (intro map_cong) simp_all
  then show ?thesis
    unfolding full_text_concat record_text_def by (rule arg_cong)
qed

lemma example_no_missing:
  assumes "r < length (rows example_corpus)"
  shows "\<not> has_missing example_corpus (rows example_corpus ! r)"
proof -
  from assms consider "r = 0" | "r = Suc 0"
    by (auto simp: example_corpus_def less_Suc_eq)
  then show ?thesis
    by cases (simp_all add: has_missing_def example_corpus_def searchable_columns_def
        prefecture_def municipality_def)
qed

lemma full_text_missing_municipality:
  "full_text missing_municipality_frame (rows missing_municipality_frame ! 0) =
     [26481, 20140, 37117, 110, 97, 110]"
  by (simp add: full_text_def missing_municipality_frame_def searchable_columns_def prefecture_def
      municipality_def)

lemma record_text_missing_municipality:
  "record_text missing_municipality_frame (rows missing_municipality_frame ! 0) =
     [26481, 20140, 37117]"
  by (simp add: record_text_def missing_municipality_frame_def searchable_columns_def prefecture_def
      municipality_def)

lemma length_missing_municipality: "length (rows missing_municipality_frame) = 1"
  by (simp add: missing_municipality_frame_def)
lemma postings_missing_municipality:
  "set (postings (build_inverted_index missing_municipality_frame) t) =
     (if t \<in> set (generate_2grams [26481, 20140, 37117, 110, 97, 110]) then {0} else {})"
proof -
  have "set (postings (build_inverted_index missing_municipality_frame) t) =
      {r. r < 1 \<and> t \<in> set (row_tokens missing_municipality_frame
         (rows missing_municipality_frame ! r))}"
    by (simp only: set_postings_build length_missing_municipality)
  also have "\<dots> = {r. r = 0 \<and> t \<in> set (row_tokens missing_municipality_frame
         (rows missing_municipality_frame ! 0))}"
    by auto
  also have "\<dots> = (if t \<in> set (generate_2grams [26481, 20140, 37117, 110, 97, 110])
      then {0} else {})"
    by (simp add: row_tokens_def full_text_missing_municipality)
  finally show ?thesis .
qed

section \<open>Claims about the builder and the search\<close>

text \<open>
  Claim C1 (conjunctive correctness of search) does not hold as stated for a record with a
  missing field, whose text the claim reads with the missing field as the empty string:
  \<open>str(row[col])\<close> of a missing cell is the text \<open>nan\<close>, and it is part of what the builder
  indexes. On the frame whose one row has the prefecture Tokyo-to and no municipality, the
  query \<open>nan\<close> returns row 0, though its 2-gram \<open>na\<close> does not occur in the record's text
  Tokyo-to.
\<close>

theorem search_returns_missing_field_row:
  "fst (search_addresses [110, 97, 110] (build_inverted_index missing_municipality_frame)
      missing_municipality_frame) = Inr (Frame {0}) \<and>
   generate_2grams [110, 97, 110] = [[110, 97], [97, 110]] \<and>
   record_text missing_municipality_frame (rows missing_municipality_frame ! 0) =
     [26481, 20140, 37117] \<and>
   \<not> sublist [110, 97]
     (record_text missing_municipality_frame (rows missing_municipality_frame ! 0))"
proof -
  have "fst (search_addresses [110, 97, 110] (build_inverted_index missing_municipality_frame)
      missing_municipality_frame) = Inr (Frame {0})"
    by (simp add: search_addresses_eq postings_missing_municipality generate_2grams_simps
        iloc_def length_missing_municipality)
  moreover have "\<not> sublist [110, 97] [26481, 20140, 37117 :: nat]"
    by (simp add: sublist_Cons_right)
  ultimately show ?thesis
    by (simp only: record_text_missing_municipality generate_2grams_simps simp_thms)
qed

text \<open>
  Claim C1, amended. For every query \<open>q\<close> of at least two characters and the index built
  from a frame, \<open>search_addresses\<close> raises nothing and returns exactly the rows \<open>r\<close> of the
  frame such that every 2-gram of \<open>q\<close> occurs as a contiguous substring of the text that the
  builder indexes for row \<open>r\<close>, the concatenation of \<open>str(row[col])\<close> in which a missing
  cell reads \<open>nan\<close>: all 2-grams are required, never only some of them. When no row of the
  frame has a missing cell under a searchable column, that text is the record's text and
  the claim holds as it was stated.
\<close>

theorem search_conjunctive:
  assumes "2 \<le> length q"
  shows "fst (search_addresses q (build_inverted_index df) df) =
     Inr (Frame {r. r < length (rows df) \<and>
       (\<forall>t \<in> set (generate_2grams q). sublist t (full_text df (rows df ! r)))}) \<and>
   ((\<forall>r < length (rows df). \<not> has_missing df (rows df ! r)) \<longrightarrow>
    fst (search_addresses q (build_inverted_index df) df) =
     Inr (Frame {r. r < length (rows df) \<and>
       (\<forall>t \<in> set (generate_2grams q). sublist t (record_text df (rows df ! r)))}))"
proof -
  let ?T = "set (generate_2grams q)"
  from assms have ne: "generate_2grams q \<noteq> []"
    by (simp add: generate_2grams_empty_iff)
  then have T: "?T \<noteq> {}"
    by simp
  have len: "length t = 2" if "t \<in> ?T" for t
    using that by (simp add: set_generate_2grams)
  have "(\<Inter>t \<in> ?T. set (postings (build_inverted_index df) t)) =
      {r. r < length (rows df) \<and> (\<forall>t \<in> ?T. t \<in> set (row_tokens df (rows df ! r)))}"
    by (simp only: set_postings_build Inter_rows [OF T])
  also have "\<dots> = {r. r < length (rows df) \<and>
      (\<forall>t \<in> ?T. sublist t (full_text df (rows df ! r)))}"
    using len by (auto simp: mem_row_tokens)
  finally have matched: "(\<Inter>t \<in> ?T. set (postings (build_inverted_index df) t)) =
      {r. r < length (rows df) \<and> (\<forall>t \<in> ?T. sublist t (full_text df (rows df ! r)))}" .
  have code: "fst (search_addresses q (build_inverted_index df) df) =
     Inr (Frame {r. r < length (rows df) \<and>
       (\<forall>t \<in> ?T. sublist t (full_text df (rows df ! r)))})"
    using ne by (simp add: search_addresses_eq matched iloc_def)
  have "{r. r < length (rows df) \<and> (\<forall>t \<in> ?T. sublist t (full_text df (rows df ! r)))} =
      {r. r < length (rows df) \<and> (\<forall>t \<in> ?T. sublist t (record_text df (rows df ! r)))}"
    if "\<forall>r < length (rows df). \<not> has_missing df (rows df ! r)"
  proof (rule Collect_cong)
    fix r
    show "r < length (rows df) \<and> (\<forall>t \<in> ?T. sublist t (full_text df (rows df ! r))) \<longleftrightarrow>
        r < length (rows df) \<and> (\<forall>t \<in> ?T. sublist t (record_text df (rows df ! r)))"
    proof (cases "r < length (rows df)")
      case True
      with that have "full_text df (rows df ! r) = record_text df (rows df ! r)"
        by (simp add: full_text_record_text)
      then show ?thesis
        by simp
    next
      case False
      then show ?thesis
        by simp
    qed
  qed
  with code show ?thesis
    by simp
qed

theorem search_conjunctive_witness:
  "{r. r < length (rows example_corpus) \<and>
      (\<forall>t \<in> set (generate_2grams [26481, 20140, 37117]).
         sublist t (full_text example_corpus (rows example_corpus ! r)))} = {0} \<and>
   {r. r < length (rows example_corpus) \<and>
      (\<forall>t \<in> set (generate_2grams [26481, 20140, 37117]).
         sublist t (record_text example_corpus (rows example_corpus ! r)))} = {0}"
proof (rule conjI)
  have len: "(2::nat) \<le> length [26481, 20140, 37117 :: nat]"
    by simp
  have complete: "\<forall>r < length (rows example_corpus).
      \<not> has_missing example_corpus (rows example_corpus ! r)"
    by (simp add: example_no_missing)
  have found: "fst (search_addresses [26481, 20140, 37117] (build_inverted_index example_corpus)
      example_corpus) = Inr (Frame {0})"
    by (simp add: search_example generate_2grams_simps iloc_def length_example)
  note conj = search_conjunctive [OF len, of example_corpus]
  from conj [THEN conjunct1] found
  have "Inr (Frame {r. r < length (rows example_corpus) \<and>
      (\<forall>t \<in> set (generate_2grams [26481, 20140, 37117]).
         sublist t (full_text example_corpus (rows example_corpus ! r)))}) =
      (Inr (Frame {0}) :: error + result)"
    by (rule trans [OF sym])
  then show "{r. r < length (rows example_corpus) \<and>
      (\<forall>t \<in> set (generate_2grams [26481, 20140, 37117]).
         sublist t (full_text example_corpus (rows example_corpus ! r)))} = {0}"
    by (simp only: sum.inject result.inject)
  from conj [THEN conjunct2, THEN mp, OF complete] found
  have "Inr (Frame {r. r < length (rows example_corpus) \<and>
      (\<forall>t \<in> set (generate_2grams [26481, 20140, 37117]).
         sublist t (record_text example_corpus (rows example_corpus ! r)))}) =
      (Inr (Frame {0}) :: error + result)"
    by (rule trans [OF sym])
  then show "{r. r < length (rows example_corpus) \<and>
      (\<forall>t \<in> set (generate_2grams [26481, 20140, 37117]).
         sublist t (record_text example_corpus (rows example_corpus ! r)))} = {0}"
    by (simp only: sum.inject result.inject)
qed

text \<open>
  Claim C2 (posting-list membership) does not hold as stated for a record with a missing
  field: on the frame whose one row has the prefecture Tokyo-to and no municipality, row 0
  is in the posting list of \<open>na\<close>, which is not a substring of the concatenation Tokyo-to
  of the record's field values (the missing one read as the empty string); it comes from
  \<open>str(row[col])\<close>, which is \<open>nan\<close> for the missing cell.
\<close>

theorem missing_field_row_in_posting:
  "0 \<in> set (postings (build_inverted_index missing_municipality_frame) [110, 97]) \<and>
   record_text missing_municipality_frame (rows missing_municipality_frame ! 0) =
     [26481, 20140, 37117] \<and>
   \<not> sublist [110, 97]
     (record_text missing_municipality_frame (rows missing_municipality_frame ! 0))"
proof -
  have "0 \<in> set (postings (build_inverted_index missing_municipality_frame) [110, 97])"
    by (simp add: postings_missing_municipality generate_2grams_simps)
  moreover have "\<not> sublist [110, 97] [26481, 20140, 37117 :: nat]"
    by (simp add: sublist_Cons_right)
  ultimately show ?thesis
    by (simp only: record_text_missing_municipality simp_thms)
qed

text \<open>
  Claim C2, amended. After \<open>build_inverted_index\<close>, a row number \<open>r\<close> is in the posting
  list of a token \<open>t\<close> exactly when \<open>r\<close> is a row of the frame, \<open>t\<close> has two characters and
  \<open>t\<close> is a contiguous substring of the concatenation, in the order of
  \<open>searchable_columns\<close> and with no separator, of the values \<open>str(row[col])\<close> of the
  searchable columns that the frame has, a missing cell reading \<open>nan\<close>. For a row with no
  missing cell under a searchable column this is the concatenation of the record's field
  values, and the claim holds as it was stated.
\<close>

theorem posting_membership:
  "(r \<in> set (postings (build_inverted_index df) t) \<longleftrightarrow>
     r < length (rows df) \<and> length t = 2 \<and>
     sublist t (concat (map (\<lambda>col. str ((rows df ! r) col))
       (filter (\<lambda>col. col \<in> set (columns df)) searchable_columns)))) \<and>
   (\<not> has_missing df (rows df ! r) \<longrightarrow>
     (r \<in> set (postings (build_inverted_index df) t) \<longleftrightarrow>
        r < length (rows df) \<and> length t = 2 \<and> sublist t (record_text df (rows df ! r))))"
proof (intro conjI impI)
  show "r \<in> set (postings (build_inverted_index df) t) \<longleftrightarrow>
     r < length (rows df) \<and> length t = 2 \<and>
     sublist t (concat (map (\<lambda>col. str ((rows df ! r) col))
       (filter (\<lambda>col. col \<in> set (columns df)) searchable_columns)))"
    by (simp add: set_postings_build mem_row_tokens full_text_concat)
next
  assume "\<not> has_missing df (rows df ! r)"
  then have "full_text df (rows df ! r) = record_text df (rows df ! r)"
    by (rule full_text_record_text)
  then show "r \<in> set (postings (build_inverted_index df) t) \<longleftrightarrow>
      r < length (rows df) \<and> length t = 2 \<and> sublist t (record_text df (rows df ! r))"
    by (simp add: set_postings_build mem_row_tokens)
qed

theorem posting_membership_witness:
  "0 \<in> set (postings (build_inverted_index example_corpus) [37117, 26032]) \<and>
   1 \<notin> set (postings (build_inverted_index example_corpus) [37117, 26032]) \<and>
   sublist [37117, 26032] (record_text example_corpus (rows example_corpus ! 0))"
proof (intro conjI)
  show in0: "0 \<in> set (postings (build_inverted_index example_corpus) [37117, 26032])"
    by (simp add: postings_example generate_2grams_simps)
  show "1 \<notin> set (postings (build_inverted_index example_corpus) [37117, 26032])"
    by (simp add: postings_example generate_2grams_simps)
  have "0 < length (rows example_corpus)"
    by (simp add: length_example)
  then have complete: "\<not> has_missing example_corpus (rows example_corpus ! 0)"
    by (rule example_no_missing)
  from posting_membership [of 0 example_corpus "[37117, 26032]", THEN conjunct2, THEN mp,
      OF complete, THEN iffD1, OF in0]
  show "sublist [37117, 26032] (record_text example_corpus (rows example_corpus ! 0))"
    by (rule conjunct2 [THEN conjunct2])
qed

text \<open>
  Claim C4 (short-query boundary). For every query shorter than two characters, and every
  index and frame, \<open>search_addresses\<close> returns the empty list \<open>[]\<close>, which stands for no
  record (\<open>result_ids EmptyList = {}\<close>).
\<close>

theorem short_query_empty:
  "length q < 2 \<Longrightarrow> fst (search_addresses q index df) = Inr EmptyList"
  by (simp add: search_addresses_eq generate_2grams_empty_iff)

theorem short_query_empty_witness:
  "fst (search_addresses [26481] (build_inverted_index example_corpus) example_corpus) =
     Inr EmptyList"
  using short_query_empty [of "[26481]" "build_inverted_index example_corpus" example_corpus]
  by simp

text \<open>
  Claim C5 (the index is unchanged by a query) does not hold as stated: the index is a
  \<open>defaultdict\<close>, and \<open>index[token]\<close> stores the empty list under a query token that is not
  a key. Searching the example index for the code points U+6C96 U+7E04, which is not a
  key of it, leaves it a key.
\<close>

theorem search_mutates_index:
  "build_inverted_index example_corpus [27798, 32260] = None \<and>
   snd (search_addresses [27798, 32260] (build_inverted_index example_corpus) example_corpus)
     [27798, 32260] = Some []"
proof -
  have absent: "build_inverted_index example_corpus [27798, 32260] = None"
    using postings_example [of "[27798, 32260]"] dom_build [of "[27798, 32260]" example_corpus]
      set_postings_build [of example_corpus "[27798, 32260]"]
    by (auto simp: generate_2grams_simps dom_def)
  have "snd (search_addresses [27798, 32260] (build_inverted_index example_corpus) example_corpus)
      = touched (build_inverted_index example_corpus) (set (generate_2grams [27798, 32260]))"
    by (simp add: search_addresses_eq generate_2grams_simps)
  with absent show ?thesis
    by (simp add: touched_def generate_2grams_simps)
qed

text \<open>
  Claim C5, amended. \<open>search_addresses\<close> changes the index in one way only: every 2-gram of
  the query that was not a key becomes a key with the empty posting list. No key is
  removed, the posting list of a key that was present is not modified, every posting list
  read with an absent key taken as the empty list is unchanged, and a query shorter than
  two characters leaves the index as it was.
\<close>

theorem search_index_effect:
  "snd (search_addresses q index df) t =
     (if t \<in> set (generate_2grams q) \<and> index t = None then Some [] else index t) \<and>
   postings (snd (search_addresses q index df)) t = postings index t \<and>
   (index t \<noteq> None \<longrightarrow> snd (search_addresses q index df) t = index t) \<and>
   (length q < 2 \<longrightarrow> snd (search_addresses q index df) = index)"
proof -
  have eq: "snd (search_addresses q index df) = touched index (set (generate_2grams q))"
    by (auto simp: search_addresses_eq touched_def)
  show ?thesis
    unfolding eq
    by (auto simp: touched_def postings_def generate_2grams_empty_iff [symmetric])
qed

theorem search_index_effect_witness:
  "snd (search_addresses [27798, 32260] (build_inverted_index example_corpus) example_corpus)
     [26481, 20140] = build_inverted_index example_corpus [26481, 20140] \<and>
   snd (search_addresses [26481] (build_inverted_index example_corpus) example_corpus) =
     build_inverted_index example_corpus"
  using search_index_effect [of "[27798, 32260]" "build_inverted_index example_corpus"
      example_corpus "[26481, 20140]"]
    search_index_effect [of "[26481]" "build_inverted_index example_corpus"
      example_corpus "[26481, 20140]"]
  by (simp add: generate_2grams_simps)

text \<open>
  Claim C6 (key set of the built index) does not hold as stated for a frame with a missing
  field: on the frame whose one row has the prefecture Tokyo-to and no municipality, \<open>an\<close>
  is a key of the index, though the only record's text (the missing field read as the
  empty string) is Tokyo-to, whose 2-grams are its first two and its last two characters.
\<close>

theorem missing_field_token_is_key:
  "[97, 110] \<in> dom (build_inverted_index missing_municipality_frame) \<and>
   length (rows missing_municipality_frame) = 1 \<and>
   generate_2grams (record_text missing_municipality_frame (rows missing_municipality_frame ! 0)) =
     [[26481, 20140], [20140, 37117]] \<and>
   [97, 110] \<notin> set (generate_2grams
     (record_text missing_municipality_frame (rows missing_municipality_frame ! 0)))"
proof -
  have "0 < length (rows missing_municipality_frame) \<and>
      [97, 110] \<in> set (row_tokens missing_municipality_frame (rows missing_municipality_frame ! 0))"
    by (simp add: length_missing_municipality row_tokens_def full_text_missing_municipality
        generate_2grams_simps)
  then have "\<exists>r < length (rows missing_municipality_frame).
      [97, 110] \<in> set (row_tokens missing_municipality_frame (rows missing_municipality_frame ! r))"
    by (rule exI)
  then have "[97, 110] \<in> dom (build_inverted_index missing_municipality_frame)"
    by (simp only: dom_build)
  then show ?thesis
    by (simp add: length_missing_municipality record_text_missing_municipality
        generate_2grams_simps)
qed

text \<open>
  Claim C6, amended. As \<open>build_inverted_index\<close> returns it, the index has a string as a
  key exactly when the string is a 2-gram of the text that the builder indexes for some
  row, the concatenation of \<open>str(row[col])\<close> in which a missing cell reads \<open>nan\<close>; and a
  string is a key exactly when its posting list (absent taken as empty) is not empty, so
  no key holds an empty list. When no row of the frame has a missing cell under a
  searchable column, the keys are exactly the 2-grams of the records' texts, as the claim
  was stated.
\<close>

theorem index_key_set:
  "(t \<in> dom (build_inverted_index df) \<longleftrightarrow>
      (\<exists>r < length (rows df). t \<in> set (generate_2grams (full_text df (rows df ! r))))) \<and>
   (t \<in> dom (build_inverted_index df) \<longleftrightarrow> postings (build_inverted_index df) t \<noteq> []) \<and>
   ((\<forall>r < length (rows df). \<not> has_missing df (rows df ! r)) \<longrightarrow>
      (t \<in> dom (build_inverted_index df) \<longleftrightarrow>
        (\<exists>r < length (rows df). t \<in> set (generate_2grams (record_text df (rows df ! r))))))"
proof (intro conjI impI)
  show "t \<in> dom (build_inverted_index df) \<longleftrightarrow>
      (\<exists>r < length (rows df). t \<in> set (generate_2grams (full_text df (rows df ! r))))"
    by (simp add: dom_build row_tokens_def)
next
  have "postings (build_inverted_index df) t \<noteq> [] \<longleftrightarrow>
      set (postings (build_inverted_index df) t) \<noteq> {}"
    by simp
  also have "\<dots> \<longleftrightarrow> (\<exists>r < length (rows df). t \<in> set (row_tokens df (rows df ! r)))"
    by (auto simp: set_postings_build)
  finally show "t \<in> dom (build_inverted_index df) \<longleftrightarrow>
      postings (build_inverted_index df) t \<noteq> []"
    by (simp add: dom_build)
next
  assume "\<forall>r < length (rows df). \<not> has_missing df (rows df ! r)"
  then have "\<forall>r < length (rows df). full_text df (rows df ! r) = record_text df (rows df ! r)"
    by (simp add: full_text_record_text)
  then have "(\<exists>r < length (rows df). t \<in> set (generate_2grams (full_text df (rows df ! r)))) \<longleftrightarrow>
      (\<exists>r < length (rows df). t \<in> set (generate_2grams (record_text df (rows df ! r))))"
    by auto
  then show "t \<in> dom (build_inverted_index df) \<longleftrightarrow>
      (\<exists>r < length (rows df). t \<in> set (generate_2grams (record_text df (rows df ! r))))"
    by (simp add: dom_build row_tokens_def)
qed

theorem index_key_set_witness:
  "[26481, 20140] \<in> dom (build_inverted_index example_corpus) \<and>
   [27798, 32260] \<notin> dom (build_inverted_index example_corpus) \<and>
   (\<exists>r < length (rows example_corpus).
      [26481, 20140] \<in> set (generate_2grams (record_text example_corpus (rows example_corpus ! r))))"
proof (intro conjI)
  have one: "set (postings (build_inverted_index example_corpus) [26481, 20140]) = {0}"
    by (simp add: postings_example generate_2grams_simps)
  have "postings (build_inverted_index example_corpus) [26481, 20140] \<noteq> []"
  proof
    assume "postings (build_inverted_index example_corpus) [26481, 20140] = []"
    then have "set (postings (build_inverted_index example_corpus) [26481, 20140]) = set []"
      by (rule arg_cong)
    with one show False
      by simp
  qed
  then show key: "[26481, 20140] \<in> dom (build_inverted_index example_corpus)"
    by (rule index_key_set [of "[26481, 20140]" example_corpus,
          THEN conjunct2, THEN conjunct1, THEN iffD2])
  have none: "set (postings (build_inverted_index example_corpus) [27798, 32260]) = {}"
    by (simp add: postings_example generate_2grams_simps)
  show "[27798, 32260] \<notin> dom (build_inverted_index example_corpus)"
  proof
    assume "[27798, 32260] \<in> dom (build_inverted_index example_corpus)"
    then have "postings (build_inverted_index example_corpus) [27798, 32260] \<noteq> []"
      by (rule index_key_set [of "[27798, 32260]" example_corpus,
            THEN conjunct2, THEN conjunct1, THEN iffD1])
    then have "set (postings (build_inverted_index example_corpus) [27798, 32260]) \<noteq> {}"
      by (simp only: set_empty not_False_eq_True)
    with none show False
      by (rule notE [rotated])
  qed
  have complete: "\<forall>r < length (rows example_corpus).
      \<not> has_missing example_corpus (rows example_corpus ! r)"
    by (simp add: example_no_missing)
  from key show "\<exists>r < length (rows example_corpus).
      [26481, 20140] \<in> set (generate_2grams (record_text example_corpus (rows example_corpus ! r)))"
    by (rule index_key_set [of "[26481, 20140]" example_corpus,
          THEN conjunct2, THEN conjunct2, THEN mp, OF complete, THEN iffD1])
qed

text \<open>
  Claim C7 (concrete scenario). The code has no parameter for the searchable fields; the
  scenario's fields \<open>pref\<close> and \<open>city\<close> are the prefecture and municipality columns of
  \<open>searchable_columns\<close>, in that order. On the index built from \<open>example_corpus\<close>, the
  queries Tokyo-to, Osaka, U+90FD U+533A, U+90FD U+65B0 (the last character of the
  prefecture and the first of the municipality of row 0) and U+6C96 U+7E04 return the
  rows \<open>{0}\<close>, \<open>{1}\<close>, \<open>{}\<close>, \<open>{0}\<close> and \<open>{}\<close>.
\<close>

theorem concrete_scenario:
  "fst (search_addresses [26481, 20140, 37117] (build_inverted_index example_corpus) example_corpus)
     = Inr (Frame {0}) \<and>
   fst (search_addresses [22823, 38442] (build_inverted_index example_corpus) example_corpus)
     = Inr (Frame {1}) \<and>
   fst (search_addresses [37117, 21306] (build_inverted_index example_corpus) example_corpus)
     = Inr (Frame {}) \<and>
   fst (search_addresses [37117, 26032] (build_inverted_index example_corpus) example_corpus)
     = Inr (Frame {0}) \<and>
   fst (search_addresses [27798, 32260] (build_inverted_index example_corpus) example_corpus)
     = Inr (Frame {})"
  by (simp add: search_example generate_2grams_simps iloc_def length_example)

text \<open>
  Claim C8 (building twice). The builder starts from a fresh dictionary and reads only the
  frame's column labels and the cells under them, so two frames that are the same snapshot
  (the same columns, the same number of rows, the same cell under every column of every
  row) give indexes with the same key set and, for every token, the same posting set.
\<close>

theorem build_deterministic:
  assumes "columns df' = columns df"
    and "length (rows df') = length (rows df)"
    and "\<forall>r < length (rows df). \<forall>col \<in> set (columns df). (rows df' ! r) col = (rows df ! r) col"
  shows "dom (build_inverted_index df') = dom (build_inverted_index df) \<and>
    (\<forall>t. set (postings (build_inverted_index df') t) = set (postings (build_inverted_index df) t))"
  using build_cong [OF assms] by simp

theorem build_deterministic_witness:
  "dom (build_inverted_index example_corpus_reloaded) = dom (build_inverted_index example_corpus) \<and>
   set (postings (build_inverted_index example_corpus_reloaded) [26481, 20140]) =
     set (postings (build_inverted_index example_corpus) [26481, 20140])"
proof -
  have c: "columns example_corpus_reloaded = columns example_corpus"
    by (simp add: example_corpus_reloaded_def example_corpus_def)
  have l: "length (rows example_corpus_reloaded) = length (rows example_corpus)"
    by (simp add: example_corpus_reloaded_def example_corpus_def)
  have r: "\<forall>r < length (rows example_corpus). \<forall>col \<in> set (columns example_corpus).
      (rows example_corpus_reloaded ! r) col = (rows example_corpus ! r) col"
    by (simp add: example_corpus_reloaded_def example_corpus_def less_Suc_eq
        prefecture_def municipality_def)
  from build_deterministic [OF c l r] show ?thesis
    by simp
qed

text \<open>
  Claim C9 (a record with a missing field contributes no tokens) does not hold as stated:
  for a row whose only searchable field is missing, \<open>str(row[col])\<close> is the text \<open>nan\<close>,
  whose 2-grams \<open>na\<close> and \<open>an\<close> are indexed under row 0.
\<close>

theorem blank_record_is_indexed:
  "full_text blank_record_frame (rows blank_record_frame ! 0) = [110, 97, 110] \<and>
   generate_2grams (full_text blank_record_frame (rows blank_record_frame ! 0)) =
     [[110, 97], [97, 110]] \<and>
   set (postings (build_inverted_index blank_record_frame) [110, 97]) = {0}"
proof -
  have ft: "full_text blank_record_frame (rows blank_record_frame ! 0) = [110, 97, 110]"
    by (simp add: full_text_def blank_record_frame_def searchable_columns_def prefecture_def)
  have "set (postings (build_inverted_index blank_record_frame) [110, 97]) =
      {r. r < 1 \<and> [110, 97] \<in> set (row_tokens blank_record_frame (rows blank_record_frame ! r))}"
    by (simp add: set_postings_build blank_record_frame_def)
  also have "\<dots> = {0}"
    using ft by (auto simp: row_tokens_def generate_2grams_simps)
  finally show ?thesis
    using ft by (simp add: generate_2grams_simps)
qed

text \<open>
  Claim C9, amended. \<open>build_inverted_index\<close> has no failing case (the model is a total
  function with no error value, as no statement of the source's loop can raise). The text
  of a row is the concatenation of \<open>str(row[col])\<close> over the searchable columns that the
  frame has, so a searchable column absent from the frame contributes nothing; a row
  whose text is shorter than two characters is in no posting list, in particular a row
  whose searchable cells are all empty strings.
\<close>

theorem build_contributions:
  "full_text df row =
     concat (map (\<lambda>col. str (row col))
       (filter (\<lambda>col. col \<in> set (columns df)) searchable_columns)) \<and>
   (length (full_text df (rows df ! r)) < 2 \<longrightarrow>
      r \<notin> set (postings (build_inverted_index df) t)) \<and>
   ((\<forall>col \<in> set searchable_columns. col \<in> set (columns df) \<longrightarrow> (rows df ! r) col = Str []) \<longrightarrow>
      full_text df (rows df ! r) = [] \<and> r \<notin> set (postings (build_inverted_index df) t))"
proof (intro conjI impI)
  show "full_text df row =
     concat (map (\<lambda>col. str (row col))
       (filter (\<lambda>col. col \<in> set (columns df)) searchable_columns))"
    by (rule full_text_concat)
next
  assume "length (full_text df (rows df ! r)) < 2"
  then have "row_tokens df (rows df ! r) = []"
    by (simp add: row_tokens_def generate_2grams_empty_iff)
  then show "r \<notin> set (postings (build_inverted_index df) t)"
    by (simp add: set_postings_build)
next
  assume blank: "\<forall>col \<in> set searchable_columns.
      col \<in> set (columns df) \<longrightarrow> (rows df ! r) col = Str []"
  then show ft: "full_text df (rows df ! r) = []"
    by (simp add: full_text_concat)
  then have "row_tokens df (rows df ! r) = []"
    by (simp add: row_tokens_def generate_2grams_simps)
  then show "r \<notin> set (postings (build_inverted_index df) t)"
    by (simp add: set_postings_build)
qed

theorem build_contributions_witness:
  "full_text empty_string_frame (rows empty_string_frame ! 0) = [] \<and>
   0 \<notin> set (postings (build_inverted_index empty_string_frame) [110, 97])"
  using build_contributions [of empty_string_frame "rows empty_string_frame ! 0" 0 "[110, 97]"]
  by (simp add: empty_string_frame_def)



end
